theory Spec2Isabelle
  imports Complex_Main
begin

section \<open>SilentSurge: the screening pipeline\<close>

text \<open>
  The development follows the route handler \<open>GET /api/screen\<close> and the adapters it calls.
  JavaScript numbers are modelled as rationals (\<^typ>\<open>rat\<close>): the quote source delivers
  finite JSON numbers, and the arithmetic of the pipeline is taken exactly, without the
  rounding error of binary floating point. Where the code divides by a value that can be
  zero, the non-finite results of JavaScript (\<open>Infinity\<close>, \<open>NaN\<close>) are values of
  the type \<open>jsnum\<close> below.
\<close>

subsection \<open>Numbers\<close>

text \<open>
  \<open>Math.round\<close> rounds to the nearest integer, a tie towards \<open>+\<infinity>\<close>. \<open>round2\<close> is the
  helper of \<open>lib/pivots.ts\<close>, \<open>Math.round(n * 100) / 100\<close>; the handler writes the same
  expression inline.
\<close>

definition Math_round :: "rat \<Rightarrow> int" where
  "Math_round x = \<lfloor>x + 1 / 2\<rfloor>"

definition round2 :: "rat \<Rightarrow> rat" where
  "round2 n = of_int (Math_round (n * 100)) / 100"

text \<open>
  A JavaScript number that may be non-finite. Division of finite numbers gives a finite
  quotient unless the divisor is zero; then it gives \<open>Infinity\<close>, \<open>-Infinity\<close> or, for
  \<open>0 / 0\<close>, \<open>NaN\<close>. No exception is raised.
\<close>

datatype jsnum = Num rat | PosInfinity | NegInfinity | NaN

definition js_div :: "rat \<Rightarrow> rat \<Rightarrow> jsnum" where
  "js_div x y =
     (if y \<noteq> 0 then Num (x / y)
      else if 0 < x then PosInfinity
      else if x < 0 then NegInfinity
      else NaN)"

text \<open>\<open>v * c\<close> for a finite \<open>c\<close>.\<close>

fun js_times :: "jsnum \<Rightarrow> rat \<Rightarrow> jsnum" where
  "js_times (Num x) c = Num (x * c)"
| "js_times PosInfinity c = (if 0 < c then PosInfinity else if c < 0 then NegInfinity else NaN)"
| "js_times NegInfinity c = (if 0 < c then NegInfinity else if c < 0 then PosInfinity else NaN)"
| "js_times NaN c = NaN"

text \<open>\<open>v <= c\<close> for a finite \<open>c\<close>: every comparison with \<open>NaN\<close> is false.\<close>

fun js_le :: "jsnum \<Rightarrow> rat \<Rightarrow> bool" where
  "js_le (Num x) c = (x \<le> c)"
| "js_le PosInfinity c = False"
| "js_le NegInfinity c = True"
| "js_le NaN c = False"

text \<open>
  \<open>round2\<close> on a value that may be non-finite: \<open>Math.round\<close> and the division by 100
  leave \<open>\<plusminus>Infinity\<close> and \<open>NaN\<close> as they are.
\<close>

fun round2_js :: "jsnum \<Rightarrow> jsnum" where
  "round2_js (Num x) = Num (round2 x)"
| "round2_js v = v"

subsection \<open>Types and constants of \<open>lib/constants.ts\<close>\<close>

datatype Platform = twitter | reddit | telegram

record SocialMention =
  platform :: Platform
  title :: string
  url :: string
  author :: "string option"
  timestamp :: "string option"

datatype StockStatus = alert | watch | filtered

text \<open>\<open>GainerStock\<close> is declared in \<open>lib/yahoo.ts\<close>; \<open>StockData\<close> repeats its fields.\<close>

record GainerStock =
  symbol :: string
  name :: string
  price :: rat
  change :: rat
  changePercent :: rat
  volume :: rat
  marketCap :: rat

record StockData = GainerStock +
  twitterMentions :: nat
  redditMentions :: nat
  telegramMentions :: nat
  totalMentions :: nat
  silenceScore :: rat
  mentions :: "SocialMention list"
  deliveryPercent :: rat
  pivotR2 :: rat
  r2Proximity :: jsnum
  nearR2 :: bool
  sectorOutperformance :: rat
  status :: StockStatus
  alertSent :: bool

record ScreenResponse =
  stocks :: "StockData list"
  scannedAt :: string
  totalScanned :: nat
  alertsSent :: nat
  niftyChangePercent :: rat
  error :: "string option"

definition MIN_PUMP_PERCENT :: rat where "MIN_PUMP_PERCENT = 4"
definition MAX_DELIVERY_PERCENT :: rat where "MAX_DELIVERY_PERCENT = 30"
definition MAX_R2_PROXIMITY :: rat where "MAX_R2_PROXIMITY = 1"
definition MIN_SECTOR_OUTPERFORMANCE :: rat where "MIN_SECTOR_OUTPERFORMANCE = 2"
definition MAX_MENTIONS :: nat where "MAX_MENTIONS = 0"

text \<open>\<open>symbol.replace(/\.(NS|BO)$/, "")\<close>: a final \<open>.NS\<close> or \<open>.BO\<close> is cut off.\<close>

definition tickerFromSymbol :: "string \<Rightarrow> string" where
  "tickerFromSymbol smb =
     (let n = length smb in
      if 3 \<le> n \<and> (drop (n - 3) smb = ''.NS'' \<or> drop (n - 3) smb = ''.BO'')
      then take (n - 3) smb else smb)"

subsection \<open>Pivot points (\<open>lib/pivots.ts\<close>)\<close>

text \<open>
  A daily candle of the chart source; a field that is \<open>null\<close> is \<open>None\<close>.
  The chart request either throws (\<open>Inl\<close> the message), answers without a list of
  quotes (\<open>Inr None\<close>), or answers with the candles.
\<close>

record Candle =
  high :: "rat option"
  low :: "rat option"
  close :: "rat option"

type_synonym ChartResult = "string + Candle list option"

record PivotData =
  prevHigh :: rat
  prevLow :: rat
  prevClose :: rat
  pivot :: rat
  r1 :: rat
  r2 :: rat
  r2Proximity :: jsnum
  nearR2 :: bool

text \<open>
  \<open>getPivotData\<close>: \<open>None\<close> is the \<open>null\<close> of the source. \<open>!high\<close> holds for \<open>null\<close>
  and for \<open>0\<close>. The levels and the proximity are computed unrounded; the record holds
  their roundings, and \<open>nearR2\<close> as computed from the unrounded proximity.
\<close>

definition getPivotData :: "(string \<Rightarrow> ChartResult) \<Rightarrow> string \<Rightarrow> rat \<Rightarrow> PivotData option" where
  "getPivotData chart smb currentPrice =
     (case chart smb of
        Inl message \<Rightarrow> None
      | Inr None \<Rightarrow> None
      | Inr (Some quotes) \<Rightarrow>
          if length quotes < 2 then None
          else
            let prevDay = quotes ! (length quotes - 2) in
            (case (high prevDay, low prevDay, close prevDay) of
               (Some h, Some l, Some c) \<Rightarrow>
                 if h = 0 \<or> l = 0 \<or> c = 0 then None
                 else
                   let pivot' = (h + l + c) / 3;
                       r1' = 2 * pivot' - l;
                       r2' = pivot' + (h - l);
                       r2Proximity' = js_times (js_div \<bar>currentPrice - r2'\<bar> r2') 100;
                       nearR2' = js_le r2Proximity' 1
                   in Some \<lparr> prevHigh = round2 h, prevLow = round2 l, prevClose = round2 c,
                             pivot = round2 pivot', r1 = round2 r1', r2 = round2 r2',
                             PivotData.r2Proximity = round2_js r2Proximity',
                             PivotData.nearR2 = nearR2' \<rparr>
             | _ \<Rightarrow> None))"

subsection \<open>The criteria and the classification (\<open>GET\<close>, lines 110--182)\<close>

text \<open>
  The handler computes these values inline, as local constants of the callback that
  enriches one mover; each definition carries the name of its local constant.
\<close>

definition silenceScoreOf :: "rat \<Rightarrow> nat \<Rightarrow> rat" where
  "silenceScoreOf cp nTotal =
     of_int (Math_round ((cp / (1 + of_nat nTotal)) * 100)) / 100"

definition sectorOutperformanceOf :: "rat \<Rightarrow> rat \<Rightarrow> rat" where
  "sectorOutperformanceOf cp nifty = of_int (Math_round ((cp - nifty) * 100)) / 100"

definition passesDelivery :: "rat \<Rightarrow> bool" where
  "passesDelivery dp = (0 \<le> dp \<and> dp < MAX_DELIVERY_PERCENT)"

definition passesSector :: "rat \<Rightarrow> bool" where
  "passesSector outperformance = (MIN_SECTOR_OUTPERFORMANCE \<le> outperformance)"

definition passesMentions :: "nat \<Rightarrow> bool" where
  "passesMentions nTotal = (nTotal \<le> MAX_MENTIONS)"

text \<open>
  The \<open>if\<close> / \<open>else if\<close> / \<open>else\<close> chain over the four criteria.
  \<open>[a, b, c, d].filter(Boolean).length\<close> is the number of true entries.
\<close>

definition classify :: "bool \<Rightarrow> bool \<Rightarrow> bool \<Rightarrow> bool \<Rightarrow> StockStatus" where
  "classify pDelivery pR2 pSector pMentions =
     (if pDelivery \<and> pR2 \<and> pSector \<and> pMentions then alert
      else if 2 \<le> length (filter id [pDelivery, pR2, pSector, pMentions]) then watch
      else filtered)"

definition passCount :: "bool \<Rightarrow> bool \<Rightarrow> bool \<Rightarrow> bool \<Rightarrow> nat" where
  "passCount d r s m = of_bool d + of_bool r + of_bool s + of_bool m"

subsection \<open>The session state and the alert dispatch (\<open>GET\<close>, lines 66--67 and 160--173)\<close>

text \<open>
  \<open>alertedTickers\<close> is the module-level set \<open>_alertedTickers\<close>. \<open>sendLog\<close> is not a
  variable of the program: it records every call of \<open>sendWhatsAppAlert\<close> with its answer,
  so that the messages that left the process can be counted.
\<close>

record Session =
  alertedTickers :: "string set"
  sendLog :: "(string \<times> bool) list"

definition initialSession :: Session where
  "initialSession = \<lparr> alertedTickers = {}, sendLog = [] \<rparr>"

text \<open>
  \<open>sendWhatsAppAlert\<close> (\<open>lib/whatsapp.ts\<close>). The four settings are read from the
  environment of the process; \<open>!accountSid\<close> holds for a missing and for an empty one.
  The request to the messaging service throws (\<open>Inl\<close> the message) or is answered, and
  \<open>Inr ok\<close> is the \<open>ok\<close> of the answer. Without the settings, or with the placeholders
  of the sample configuration, no request is made.
\<close>

record TwilioConfig =
  accountSid :: "string option"
  authToken :: "string option"
  whatsappFrom :: "string option"
  whatsappTo :: "string option"

definition unset :: "string option \<Rightarrow> bool" where
  "unset v = (v = None \<or> v = Some [])"

type_synonym Transport = "string \<Rightarrow> rat \<Rightarrow> rat \<Rightarrow> jsnum \<Rightarrow> bool"

definition sendWhatsAppAlert :: "TwilioConfig \<Rightarrow> (string \<Rightarrow> string + bool) \<Rightarrow> Transport" where
  "sendWhatsAppAlert config post ticker cp dp proximity =
     (if unset (accountSid config) \<or> unset (authToken config)
         \<or> unset (whatsappFrom config) \<or> unset (whatsappTo config)
      then False
      else if accountSid config = Some ''your_twilio_account_sid''
              \<or> authToken config = Some ''your_twilio_auth_token''
      then False
      else (case post ticker of Inl message \<Rightarrow> False | Inr ok \<Rightarrow> ok))"

text \<open>
  The dispatch of an alert, with the transport \<open>send\<close>. The second component of the
  state is the counter \<open>alertsSent\<close> of the running scan. The result is the value left
  in \<open>alertSent\<close>.
\<close>

definition maybeDispatch ::
  "Transport \<Rightarrow> string \<Rightarrow> rat \<Rightarrow> rat \<Rightarrow> jsnum \<Rightarrow> Session \<times> nat \<Rightarrow> bool \<times> Session \<times> nat" where
  "maybeDispatch send ticker cp dp proximity st =
     (let (sess, n) = st in
      if ticker \<notin> alertedTickers sess then
        let sent = send ticker cp dp proximity;
            sess1 = sess\<lparr> sendLog := sendLog sess @ [(ticker, sent)] \<rparr>
        in if sent
           then (True, sess1\<lparr> alertedTickers := insert ticker (alertedTickers sess1) \<rparr>, Suc n)
           else (False, sess1, n)
      else (False, sess, n))"

subsection \<open>The scan (\<open>GET\<close>)\<close>

text \<open>
  What one scan receives from outside: the answers of the adapters, the settings of the
  messaging channel and the answers of the messaging service, and the clock.
  \<open>getTopGainers\<close> and the two searches whose code runs partly outside a \<open>try\<close> block
  can throw (\<open>Inl\<close> the message); the other adapters catch every failure and answer
  with a neutral value.
\<close>

record ScanEnv =
  topGainers :: "string + GainerStock list"
  niftyChange :: rat
  twitterSearch :: "string \<Rightarrow> string + SocialMention list"
  redditSearch :: "string \<Rightarrow> string + SocialMention list"
  telegramSearch :: "string \<Rightarrow> SocialMention list"
  deliveryLookup :: "string \<Rightarrow> rat"
  yahooChart :: "string \<Rightarrow> ChartResult"
  twilio :: TwilioConfig
  twilioPost :: "string \<Rightarrow> string + bool"
  now :: string

text \<open>
  The callback of \<open>gainers.map\<close> for one mover. The five lookups are awaited together;
  when one of them throws, the callback throws and neither classifies nor dispatches.
\<close>

definition enrich ::
  "ScanEnv \<Rightarrow> rat \<Rightarrow> GainerStock \<Rightarrow> Session \<times> nat \<Rightarrow> (string + StockData) \<times> Session \<times> nat" where
  "enrich env nifty stock st =
     (let ticker = tickerFromSymbol (symbol stock) in
      case twitterSearch env ticker of
        Inl message \<Rightarrow> (Inl message, st)
      | Inr twitterResults \<Rightarrow>
      (case redditSearch env ticker of
        Inl message \<Rightarrow> (Inl message, st)
      | Inr redditResults \<Rightarrow>
        let telegramResults = telegramSearch env ticker;
            dp = deliveryLookup env ticker;
            pivotData = getPivotData (yahooChart env) (symbol stock) (price stock);
            nTwitter = length twitterResults;
            nReddit = length redditResults;
            nTelegram = length telegramResults;
            nTotal = nTwitter + nReddit + nTelegram;
            score = silenceScoreOf (changePercent stock) nTotal;
            pR2 = (case pivotData of None \<Rightarrow> 0 | Some pd \<Rightarrow> r2 pd);
            proximity = (case pivotData of None \<Rightarrow> Num (- 1)
                         | Some pd \<Rightarrow> PivotData.r2Proximity pd);
            near = (case pivotData of None \<Rightarrow> False | Some pd \<Rightarrow> PivotData.nearR2 pd);
            outperformance = sectorOutperformanceOf (changePercent stock) nifty;
            st0 = classify (passesDelivery dp) near (passesSector outperformance)
                    (passesMentions nTotal);
            (sent, st') =
              (if st0 = alert
               then maybeDispatch (sendWhatsAppAlert (twilio env) (twilioPost env)) ticker
                      (changePercent stock) dp proximity st
               else (False, st))
        in (Inr \<lparr> symbol = symbol stock, name = name stock, price = price stock,
                   change = change stock, changePercent = changePercent stock,
                   volume = volume stock, marketCap = marketCap stock,
                   twitterMentions = nTwitter, redditMentions = nReddit,
                   telegramMentions = nTelegram, totalMentions = nTotal,
                   silenceScore = score,
                   mentions = twitterResults @ redditResults @ telegramResults,
                   deliveryPercent = dp, pivotR2 = pR2, r2Proximity = proximity,
                   nearR2 = near, sectorOutperformance = outperformance,
                   status = st0, alertSent = sent \<rparr>, st')))"

text \<open>
  The callbacks of one scan, run in the order of the list, each one to its end. The
  source starts them together and lets them interleave at their \<open>await\<close>s; a callback
  reads and writes the session state only for its own ticker, so the order is immaterial
  when the tickers of the movers of a scan are pairwise distinct, as they are for the
  symbols of the watch list. A callback that throws does not stop the others.
\<close>

fun enrichAll ::
  "ScanEnv \<Rightarrow> rat \<Rightarrow> GainerStock list \<Rightarrow> Session \<times> nat
     \<Rightarrow> (string + StockData) list \<times> Session \<times> nat" where
  "enrichAll env nifty [] st = ([], st)"
| "enrichAll env nifty (g # gs) st =
     (let (r, st1) = enrich env nifty g st;
          (rs, st2) = enrichAll env nifty gs st1
      in (r # rs, st2))"

text \<open>\<open>Promise.all\<close>: the list of the values, or the message of a callback that threw.\<close>

fun promiseAll :: "(string + 'a) list \<Rightarrow> string + 'a list" where
  "promiseAll [] = Inr []"
| "promiseAll (Inl message # rs) = Inl message"
| "promiseAll (Inr v # rs) =
     (case promiseAll rs of Inl message \<Rightarrow> Inl message | Inr vs \<Rightarrow> Inr (v # vs))"

text \<open>
  \<open>Array.prototype.sort\<close> with a comparison function: the sort is stable, and the
  comparison function of the handler is a consistent one, so the result is that of a
  stable insertion sort. An element goes before the first element it does not compare
  greater than.
\<close>

fun insertBy :: "('a \<Rightarrow> 'a \<Rightarrow> rat) \<Rightarrow> 'a \<Rightarrow> 'a list \<Rightarrow> 'a list" where
  "insertBy cmp x [] = [x]"
| "insertBy cmp x (y # ys) = (if cmp x y \<le> 0 then x # y # ys else y # insertBy cmp x ys)"

definition Array_sort :: "('a \<Rightarrow> 'a \<Rightarrow> rat) \<Rightarrow> 'a list \<Rightarrow> 'a list" where
  "Array_sort cmp xs = foldr (insertBy cmp) xs []"

fun statusPriority :: "StockStatus \<Rightarrow> int" where
  "statusPriority alert = 0"
| "statusPriority watch = 1"
| "statusPriority filtered = 2"

definition compareStocks :: "StockData \<Rightarrow> StockData \<Rightarrow> rat" where
  "compareStocks a b =
     (let p = statusPriority (status a) - statusPriority (status b) in
      if p \<noteq> 0 then of_int p else silenceScore b - silenceScore a)"

record HttpResponse =
  statusCode :: nat
  body :: ScreenResponse

definition errorResponse :: "string \<Rightarrow> string \<Rightarrow> HttpResponse" where
  "errorResponse timeNow message =
     \<lparr> statusCode = 500,
       body = \<lparr> stocks = [], scannedAt = timeNow, totalScanned = 0, alertsSent = 0,
                niftyChangePercent = 0, error = Some message \<rparr> \<rparr>"

text \<open>
  The handler. Everything runs inside one \<open>try\<close>; the \<open>catch\<close> block answers with
  \<open>errorResponse\<close>. The session state is returned as the scan leaves it.
\<close>

definition GET :: "ScanEnv \<Rightarrow> Session \<Rightarrow> HttpResponse \<times> Session" where
  "GET env sess =
     (case topGainers env of
        Inl message \<Rightarrow> (errorResponse (now env) message, sess)
      | Inr gainers \<Rightarrow>
          let nifty = niftyChange env in
          if length gainers = 0
          then (\<lparr> statusCode = 200,
                  body = \<lparr> stocks = [], scannedAt = now env, totalScanned = 0,
                           alertsSent = 0, niftyChangePercent = nifty, error = None \<rparr> \<rparr>,
                sess)
          else
            let (results, sess', sentCount) = enrichAll env nifty gainers (sess, 0) in
            (case promiseAll results of
               Inl message \<Rightarrow> (errorResponse (now env) message, sess')
             | Inr enriched \<Rightarrow>
                 (\<lparr> statusCode = 200,
                    body = \<lparr> stocks = Array_sort compareStocks enriched,
                             scannedAt = now env, totalScanned = length gainers,
                             alertsSent = sentCount, niftyChangePercent = nifty,
                             error = None \<rparr> \<rparr>,
                  sess')))"


subsection \<open>Ticker matching (\<open>lib/reddit.ts\<close>, \<open>lib/telegram.ts\<close>)\<close>





text \<open>The part of the pattern language that the expression uses.\<close>

datatype rx =
    Empty
  | StartAnchor
  | EndAnchor
  | OneOf "char list"
  | Lit char
  | Seq rx rx
  | Alt rx rx
  | Lookahead rx


text \<open>The pattern that matches the characters of a string, one after the other.\<close>

definition literal :: "string \<Rightarrow> rx" where
  "literal s = foldr (\<lambda>c r. Seq (Lit c) r) s Empty"









subsection \<open>What the scans of a process leave behind\<close>





text \<open>Some step of the scan throws: the fetch of the movers, or a search for one of them.\<close>

definition scanThrows :: "ScanEnv \<Rightarrow> bool" where
  "scanThrows env =
     (case topGainers env of
        Inl message \<Rightarrow> True
      | Inr gainers \<Rightarrow>
          list_ex (\<lambda>g. isl (twitterSearch env (tickerFromSymbol (symbol g)))
                      \<or> isl (redditSearch env (tickerFromSymbol (symbol g)))) gainers)"

subsection \<open>Example inputs\<close>

text \<open>
  The pivot example of the specification: the previous day has high 110, low 90 and
  close 100; the last candle is the running day.
\<close>

definition exampleChart :: "string \<Rightarrow> ChartResult" where
  "exampleChart smb =
     Inr (Some [\<lparr> high = Some 110, low = Some 90, close = Some 100 \<rparr>,
                \<lparr> high = Some 125, low = Some 100, close = Some 121 \<rparr>])"

text \<open>A previous day with high, low and close at 1000, so that the second resistance is 1000.\<close>

definition flatChart :: "string \<Rightarrow> ChartResult" where
  "flatChart smb =
     Inr (Some [\<lparr> high = Some 1000, low = Some 1000, close = Some 1000 \<rparr>,
                \<lparr> high = Some 1011, low = Some 1000, close = Some 1010 \<rparr>])"

text \<open>
  A scan with three movers. The benchmark is up 3 percent and every delivery percentage
  is 20. \<open>TCS\<close> trades at 121, within one percent of its second resistance 120, and has
  no mention: all four criteria hold. The other two trade at 110 and have one mention.
  The channel is configured and the messaging service answers \<open>delivered\<close>.
\<close>

definition exampleMover :: "string \<Rightarrow> rat \<Rightarrow> rat \<Rightarrow> GainerStock" where
  "exampleMover smb p cp =
     \<lparr> symbol = smb, name = smb, price = p, change = 0, changePercent = cp,
       volume = 100000, marketCap = 1000000000 \<rparr>"

definition exampleMention :: SocialMention where
  "exampleMention =
     \<lparr> platform = reddit, title = ''What is going on today'',
       url = ''https://www.reddit.com/r/IndianStreetBets/comments/1'',
       author = Some ''u/someone'', timestamp = None \<rparr>"

definition exampleEnv :: "bool \<Rightarrow> ScanEnv" where
  "exampleEnv delivered =
     \<lparr> topGainers = Inr [exampleMover ''INFY.NS'' 110 7, exampleMover ''TCS.NS'' 121 6,
                         exampleMover ''WIPRO.NS'' 110 (9 / 2)],
       niftyChange = 3,
       twitterSearch = (\<lambda>ticker. Inr []),
       redditSearch = (\<lambda>ticker. Inr (if ticker = ''TCS'' then [] else [exampleMention])),
       telegramSearch = (\<lambda>ticker. []),
       deliveryLookup = (\<lambda>ticker. 20),
       yahooChart = exampleChart,
       twilio = \<lparr> accountSid = Some ''AC0123456789'', authToken = Some ''secret'',
                  whatsappFrom = Some ''whatsapp:+14155238886'',
                  whatsappTo = Some ''whatsapp:+919876543210'' \<rparr>,
       twilioPost = (\<lambda>ticker. Inr delivered),
       now = ''2026-01-05T10:00:00.000Z'' \<rparr>"

text \<open>The same scan, with a search that throws for one mover.\<close>

definition failingEnv :: ScanEnv where
  "failingEnv = (exampleEnv True)\<lparr> redditSearch :=
      (\<lambda>ticker. if ticker = ''TCS''
                then Inl ''Cannot read properties of undefined (reading slice)''
                else Inr []) \<rparr>"

section \<open>Properties\<close>

text \<open>
  C1. For each of the 16 combinations of the four criteria, the status is \<open>alert\<close> exactly
  when all four hold, \<open>watch\<close> exactly when two or three hold, and \<open>filtered\<close> exactly
  when at most one holds.
\<close>

theorem classify_truth_table:
  "(classify d r s m = alert) = (d \<and> r \<and> s \<and> m)
   \<and> (classify d r s m = watch) = (passCount d r s m = 2 \<or> passCount d r s m = 3)
   \<and> (classify d r s m = filtered) = (passCount d r s m \<le> 1)"
  by (cases d; cases r; cases s; cases m) (simp_all add: classify_def passCount_def)

subsection \<open>The silence score and the sector criterion\<close>

lemma Math_round_mono: "x \<le> y \<Longrightarrow> Math_round x \<le> Math_round y"
  by (simp add: Math_round_def floor_mono)

lemma silence_quotient_mono:
  fixes cp :: rat
  assumes "0 \<le> cp" "m \<le> n"
  shows "cp / (1 + of_nat n) \<le> cp / (1 + of_nat m)"
  using assms by (intro divide_left_mono) (auto simp: add_pos_nonneg)

text \<open>
  C3, as the code has it. The divisor \<open>1 + totalMentions\<close> is never zero, so the division
  gives the finite quotient. For a change of at least zero (every mover has at least 4)
  the score does not increase with the number of mentions; the quotient before rounding
  decreases strictly when the change is positive.
\<close>

theorem silence_score_monotone:
  "js_div cp (1 + of_nat m) = Num (cp / (1 + of_nat m))
   \<and> (0 \<le> cp \<and> m \<le> n \<longrightarrow> silenceScoreOf cp n \<le> silenceScoreOf cp m)
   \<and> (0 < cp \<and> m < n \<longrightarrow> cp / (1 + of_nat n) < cp / (1 + of_nat m))"
proof (intro conjI impI)
  have "(1 + of_nat m :: rat) \<noteq> 0"
    by (metis add_pos_nonneg less_numeral_extra(3) of_nat_0_le_iff zero_less_one)
  then show "js_div cp (1 + of_nat m) = Num (cp / (1 + of_nat m))"
    by (simp add: js_div_def)
next
  assume a: "0 \<le> cp \<and> m \<le> n"
  then have "cp / (1 + of_nat n) * 100 \<le> cp / (1 + of_nat m) * 100"
    by (intro mult_right_mono silence_quotient_mono) simp_all
  then have "Math_round (cp / (1 + of_nat n) * 100) \<le> Math_round (cp / (1 + of_nat m) * 100)"
    by (rule Math_round_mono)
  then show "silenceScoreOf cp n \<le> silenceScoreOf cp m"
    by (simp add: silenceScoreOf_def divide_right_mono)
next
  assume a: "0 < cp \<and> m < n"
  have "(0::rat) < 1 + of_nat m" by (simp add: add_pos_nonneg)
  moreover have "(1 + of_nat m :: rat) < 1 + of_nat n" using a by simp
  ultimately show "cp / (1 + of_nat n) < cp / (1 + of_nat m)"
    using a by (simp add: divide_strict_left_mono add_pos_nonneg)
qed

text \<open>A mover up 6 percent: score 6 with no mention, 1.5 with three.\<close>

theorem silence_score_monotone_witness:
  "silenceScoreOf 6 3 \<le> silenceScoreOf 6 0 \<and> silenceScoreOf 6 0 = 6
   \<and> silenceScoreOf 6 3 = 3 / 2 \<and> (6::rat) / (1 + of_nat 3) < 6 / (1 + of_nat 0)"
proof -
  have "silenceScoreOf 6 0 = 6" "silenceScoreOf 6 3 = 3 / 2" by code_simp+
  then show ?thesis using silence_score_monotone [of 6 0 3] by simp
qed

text \<open>
  C3 as stated fails: a mover up 4 percent scores 0.14 with 27 mentions and with 28, so
  the score does not decrease strictly; and for a negative change the score increases.
\<close>

theorem silence_score_not_strict:
  "silenceScoreOf 4 27 = 14 / 100 \<and> silenceScoreOf 4 28 = 14 / 100
   \<and> \<not> silenceScoreOf 4 28 < silenceScoreOf 4 27
   \<and> silenceScoreOf (- 1) 0 = - 1 \<and> silenceScoreOf (- 1) 1 = - 1 / 2
   \<and> \<not> silenceScoreOf (- 1) 1 < silenceScoreOf (- 1) 0"
  by code_simp

text \<open>
  C4, as the code has it. The criterion compares the outperformance after rounding to two
  decimals: it holds exactly when the rounded difference is at least 2, that is, when
  the difference itself is at least 1.995.
\<close>

theorem passes_sector_threshold:
  "passesSector (sectorOutperformanceOf cp nifty) = (2 \<le> round2 (cp - nifty))
   \<and> passesSector (sectorOutperformanceOf cp nifty) = (1995 / 1000 \<le> cp - nifty)"
proof -
  have "passesSector (sectorOutperformanceOf cp nifty) = (200 \<le> Math_round ((cp - nifty) * 100))"
    by (simp add: passesSector_def sectorOutperformanceOf_def MIN_SECTOR_OUTPERFORMANCE_def
        le_divide_eq)
  moreover have "(200 \<le> Math_round ((cp - nifty) * 100)) = (1995 / 1000 \<le> cp - nifty)"
    by (simp add: Math_round_def le_floor_iff) linarith
  moreover have "(2 \<le> round2 (cp - nifty)) = (200 \<le> Math_round ((cp - nifty) * 100))"
    by (simp add: round2_def le_divide_eq)
  ultimately show ?thesis by simp
qed

text \<open>
  C4 as stated fails: a mover up 4.997 percent against a benchmark up 3 percent
  outperforms by 1.997, less than 2, and passes the criterion.
\<close>

theorem passes_sector_below_two:
  "passesSector (sectorOutperformanceOf (4997 / 1000) 3) \<and> \<not> (2 \<le> (4997 / 1000 :: rat) - 3)"
  by code_simp

subsection \<open>Pivot levels\<close>

lemma getPivotData_levels:
  assumes "chart smb = Inr (Some quotes)" and "2 \<le> length quotes"
    and "quotes ! (length quotes - 2) = \<lparr> high = Some h, low = Some l, close = Some c \<rparr>"
    and "h \<noteq> 0" and "l \<noteq> 0" and "c \<noteq> 0"
  shows "getPivotData chart smb currentPrice =
     Some \<lparr> prevHigh = round2 h, prevLow = round2 l, prevClose = round2 c,
            pivot = round2 ((h + l + c) / 3),
            r1 = round2 (2 * ((h + l + c) / 3) - l),
            r2 = round2 ((h + l + c) / 3 + (h - l)),
            PivotData.r2Proximity =
              round2_js (js_times (js_div \<bar>currentPrice - ((h + l + c) / 3 + (h - l))\<bar>
                                          ((h + l + c) / 3 + (h - l))) 100),
            PivotData.nearR2 =
              js_le (js_times (js_div \<bar>currentPrice - ((h + l + c) / 3 + (h - l))\<bar>
                                      ((h + l + c) / 3 + (h - l))) 100) 1 \<rparr>"
  using assms by (simp add: getPivotData_def Let_def)

lemma round2_just_above_one:
  assumes "1 < p" "p < 1005 / 1000"
  shows "round2 p = 1"
proof -
  have "Math_round (p * 100) = 100"
    unfolding Math_round_def using assms by (simp add: floor_eq_iff) 
  then show ?thesis by (simp add: round2_def)
qed



text \<open>
  C9. \<open>nearR2\<close> is decided before the proximity is rounded: whenever the proximity lies
  strictly between 1.0 and 1.005, the record reports \<open>r2Proximity = 1\<close>, which is within
  the threshold, together with \<open>nearR2 = false\<close>.
\<close>

theorem rounded_proximity_hides_miss:
  assumes "chart smb = Inr (Some quotes)" and "2 \<le> length quotes"
    and "quotes ! (length quotes - 2) = \<lparr> high = Some h, low = Some l, close = Some c \<rparr>"
    and "h \<noteq> 0" and "l \<noteq> 0" and "c \<noteq> 0"
    and "1 < \<bar>currentPrice - ((h + l + c) / 3 + (h - l))\<bar> / ((h + l + c) / 3 + (h - l)) * 100"
    and "\<bar>currentPrice - ((h + l + c) / 3 + (h - l))\<bar> / ((h + l + c) / 3 + (h - l)) * 100
           < 1005 / 1000"
  shows "\<exists>pd. getPivotData chart smb currentPrice = Some pd
           \<and> PivotData.r2Proximity pd = Num 1 \<and> \<not> PivotData.nearR2 pd"
proof -
  let ?R2 = "(h + l + c) / 3 + (h - l)"
  let ?p = "\<bar>currentPrice - ?R2\<bar> / ?R2 * 100"
  have nz: "?R2 \<noteq> 0" using assms(7) by auto
  then have prox: "js_times (js_div \<bar>currentPrice - ?R2\<bar> ?R2) 100 = Num ?p"
    by (simp add: js_div_def)
  have "round2 ?p = 1" using assms(7,8) by (rule round2_just_above_one)
  moreover have "\<not> ?p \<le> 1" using assms(7) by simp
  ultimately show ?thesis
    using getPivotData_levels [of chart smb quotes h l c currentPrice, OF assms(1-6)] prox
    by simp
qed

text \<open>Such an input: the second resistance at 1000 and the price at 1010.02.\<close>

theorem rounded_proximity_hides_miss_witness:
  "\<exists>pd. getPivotData flatChart ''TCS.NS'' (101002 / 100) = Some pd
           \<and> PivotData.r2Proximity pd = Num 1 \<and> \<not> PivotData.nearR2 pd"
  by (rule rounded_proximity_hides_miss [of flatChart "''TCS.NS''"
        "[\<lparr> high = Some 1000, low = Some 1000, close = Some 1000 \<rparr>,
          \<lparr> high = Some 1011, low = Some 1000, close = Some 1010 \<rparr>]" 1000 1000 1000])
     (simp_all add: flatChart_def)

subsection \<open>The report of a scan\<close>

lemma maybeDispatch_result:
  "maybeDispatch send ticker cp dp prox (sess, n) = (sent, sess', n') \<Longrightarrow>
     n' = n + of_bool sent"
  by (auto simp: maybeDispatch_def Let_def split: if_splits)

lemma enrich_counts:
  assumes "enrich env nifty g (sess, n) = (Inr sd, sess', n')"
  shows "n' = n + of_bool (alertSent sd) \<and> (alertSent sd \<longrightarrow> status sd = alert)"
proof -
  obtain tw where tw: "twitterSearch env (tickerFromSymbol (symbol g)) = Inr tw"
    using assms by (cases "twitterSearch env (tickerFromSymbol (symbol g))")
      (auto simp: enrich_def Let_def)
  obtain rd where rd: "redditSearch env (tickerFromSymbol (symbol g)) = Inr rd"
    using assms tw by (cases "redditSearch env (tickerFromSymbol (symbol g))")
      (auto simp: enrich_def Let_def)
  show ?thesis
    using assms tw rd
    by (auto simp: enrich_def Let_def split: if_splits prod.splits dest: maybeDispatch_result)
qed

lemma enrichAll_counts:
  "enrichAll env nifty gs (sess, n) = (results, sess', n') \<Longrightarrow>
   promiseAll results = Inr enriched \<Longrightarrow>
     n' = n + length (filter alertSent enriched)
     \<and> length enriched = length gs
     \<and> (\<forall>sd \<in> set enriched. alertSent sd \<longrightarrow> status sd = alert)"
proof (induction gs arbitrary: sess n results enriched sess' n')
  case Nil
  then show ?case by auto
next
  case (Cons g gs)
  obtain r sess1 n1 where e: "enrich env nifty g (sess, n) = (r, sess1, n1)"
    by (metis prod_cases3)
  obtain rs sess2 n2 where ea: "enrichAll env nifty gs (sess1, n1) = (rs, sess2, n2)"
    by (metis prod_cases3)
  from Cons.prems(1) e ea have res: "results = r # rs" "sess' = sess2" "n' = n2"
    by auto
  from Cons.prems(2) res obtain sd sds where
    r: "r = Inr sd" and rs: "promiseAll rs = Inr sds" and en: "enriched = sd # sds"
    by (cases r; cases "promiseAll rs") auto
  from Cons.IH [OF ea rs] have ih:
    "n2 = n1 + length (filter alertSent sds)" "length sds = length gs"
    "\<forall>sd \<in> set sds. alertSent sd \<longrightarrow> status sd = alert"
    by auto
  from enrich_counts [OF e [unfolded r]] have
    "n1 = n + of_bool (alertSent sd)" "alertSent sd \<longrightarrow> status sd = alert"
    by auto
  with ih res en show ?case by auto
qed

lemma set_insertBy: "set (insertBy cmp x xs) = insert x (set xs)"
  by (induction xs) auto

lemma length_insertBy: "length (insertBy cmp x xs) = Suc (length xs)"
  by (induction xs) auto

lemma filter_insertBy:
  "length (filter P (insertBy cmp x xs)) = of_bool (P x) + length (filter P xs)"
  by (induction xs) auto

lemma set_Array_sort: "set (Array_sort cmp xs) = set xs"
  by (induction xs) (auto simp: Array_sort_def set_insertBy)

lemma length_Array_sort: "length (Array_sort cmp xs) = length xs"
  by (induction xs) (auto simp: Array_sort_def length_insertBy)

lemma filter_Array_sort: "length (filter P (Array_sort cmp xs)) = length (filter P xs)"
  by (induction xs) (auto simp: Array_sort_def filter_insertBy)

lemma sorted_insertBy:
  assumes tot: "\<And>a b. cmp a b \<le> 0 \<or> cmp b a \<le> 0"
    and trans: "\<And>a b c. cmp a b \<le> 0 \<Longrightarrow> cmp b c \<le> 0 \<Longrightarrow> cmp a c \<le> 0"
  shows "sorted_wrt (\<lambda>a b. cmp a b \<le> 0) xs \<Longrightarrow>
         sorted_wrt (\<lambda>a b. cmp a b \<le> 0) (insertBy cmp x xs)"
proof (induction xs)
  case Nil
  then show ?case by simp
next
  case (Cons y ys)
  show ?case
  proof (cases "cmp x y \<le> 0")
    case True
    then have "\<forall>z \<in> set ys. cmp x z \<le> 0"
      using Cons.prems trans by auto
    with True Cons.prems show ?thesis by simp
  next
    case False
    then have "cmp y x \<le> 0" using tot by blast
    with False Cons show ?thesis by (auto simp: set_insertBy)
  qed
qed

lemma sorted_Array_sort:
  assumes tot: "\<And>a b. cmp a b \<le> 0 \<or> cmp b a \<le> 0"
    and trans: "\<And>a b c. cmp a b \<le> 0 \<Longrightarrow> cmp b c \<le> 0 \<Longrightarrow> cmp a c \<le> 0"
  shows "sorted_wrt (\<lambda>a b. cmp a b \<le> 0) (Array_sort cmp xs)"
proof (induction xs)
  case Nil
  then show ?case by (simp add: Array_sort_def)
next
  case (Cons x xs)
  have "Array_sort cmp (x # xs) = insertBy cmp x (Array_sort cmp xs)"
    by (simp add: Array_sort_def)
  with Cons show ?case using sorted_insertBy [of cmp, OF tot trans] by simp
qed

lemma statusPriority_inj: "statusPriority s = statusPriority t \<Longrightarrow> s = t"
  by (cases s; cases t) simp_all

lemma compareStocks_le:
  "(compareStocks a b \<le> 0) =
     (statusPriority (status a) < statusPriority (status b)
      \<or> (status a = status b \<and> silenceScore b \<le> silenceScore a))"
  by (auto simp: compareStocks_def Let_def dest: statusPriority_inj)

lemma compareStocks_total: "compareStocks a b \<le> 0 \<or> compareStocks b a \<le> 0"
proof (cases "statusPriority (status a) = statusPriority (status b)")
  case True
  then have "status a = status b" by (rule statusPriority_inj)
  then show ?thesis unfolding compareStocks_le by auto
next
  case False
  then show ?thesis unfolding compareStocks_le by auto
qed

lemma compareStocks_trans:
  "compareStocks a b \<le> 0 \<Longrightarrow> compareStocks b c \<le> 0 \<Longrightarrow> compareStocks a c \<le> 0"
  unfolding compareStocks_le by auto

lemma sorted_stocks: "sorted_wrt (\<lambda>a b. compareStocks a b \<le> 0) (Array_sort compareStocks xs)"
  by (rule sorted_Array_sort [OF compareStocks_total compareStocks_trans])

lemma GET_success:
  assumes "GET env sess = (resp, sess')" and "error (body resp) = None"
  shows "\<exists>gainers. topGainers env = Inr gainers \<and>
           ((gainers = [] \<and> stocks (body resp) = [] \<and> totalScanned (body resp) = 0
               \<and> alertsSent (body resp) = 0)
            \<or> (\<exists>results sentCount enriched.
                  enrichAll env (niftyChange env) gainers (sess, 0) = (results, sess', sentCount)
                  \<and> promiseAll results = Inr enriched
                  \<and> stocks (body resp) = Array_sort compareStocks enriched
                  \<and> totalScanned (body resp) = length gainers
                  \<and> alertsSent (body resp) = sentCount))"
proof (cases "topGainers env")
  case (Inl m)
  with assms show ?thesis by (auto simp: GET_def errorResponse_def)
next
  case (Inr gainers)
  show ?thesis
  proof (cases "gainers = []")
    case True
    with assms Inr show ?thesis by (auto simp: GET_def)
  next
    case False
    obtain results s1 n1 where
      ea: "enrichAll env (niftyChange env) gainers (sess, 0) = (results, s1, n1)"
      by (metis prod_cases3)
    show ?thesis
    proof (cases "promiseAll results")
      case (Inl m)
      with assms Inr False ea show ?thesis
        by (auto simp: GET_def errorResponse_def Let_def)
    next
      case (Inr enriched)
      with assms \<open>topGainers env = Inr gainers\<close> False ea show ?thesis
        by (auto simp: GET_def Let_def)
    qed
  qed
qed

text \<open>
  C6. In every report without an error, the stocks are ordered by status priority
  (\<open>alert\<close>, then \<open>watch\<close>, then \<open>filtered\<close>) and, within a status, by descending
  silence score: of two neighbours, either the first has the strictly higher priority
  (the lower number), or both have the same status and the first has a silence score at
  least as large.
\<close>

theorem report_sorted:
  assumes "GET env sess = (resp, sess')" and "error (body resp) = None"
  shows "\<forall>i. Suc i < length (stocks (body resp)) \<longrightarrow>
           (let a = stocks (body resp) ! i; b = stocks (body resp) ! Suc i in
            statusPriority (status a) < statusPriority (status b)
            \<or> (status a = status b \<and> silenceScore b \<le> silenceScore a))"
proof -
  have "sorted_wrt (\<lambda>a b. compareStocks a b \<le> 0) (stocks (body resp))"
    using GET_success [OF assms] sorted_stocks by auto
  then have "\<forall>i. Suc i < length (stocks (body resp)) \<longrightarrow>
      compareStocks (stocks (body resp) ! i) (stocks (body resp) ! Suc i) \<le> 0"
    by (simp add: sorted_wrt_iff_nth_less)
  then show ?thesis by (simp add: compareStocks_le Let_def)
qed

text \<open>The example scan: the movers arrive as watch, alert, filtered and leave as alert, watch, filtered.\<close>

theorem report_sorted_witness:
  "map symbol (stocks (body (fst (GET (exampleEnv True) initialSession))))
     = [''TCS.NS'', ''INFY.NS'', ''WIPRO.NS'']
   \<and> map status (stocks (body (fst (GET (exampleEnv True) initialSession))))
     = [alert, watch, filtered]
   \<and> statusPriority (status (stocks (body (fst (GET (exampleEnv True) initialSession))) ! 0))
     < statusPriority (status (stocks (body (fst (GET (exampleEnv True) initialSession))) ! 1))"
proof -
  have ok: "error (body (fst (GET (exampleEnv True) initialSession))) = None"
    by code_simp
  have len: "Suc 0 < length (stocks (body (fst (GET (exampleEnv True) initialSession))))"
    by code_simp
  have st: "map status (stocks (body (fst (GET (exampleEnv True) initialSession))))
     = [alert, watch, filtered]"
    by code_simp
  have sy: "map symbol (stocks (body (fst (GET (exampleEnv True) initialSession))))
     = [''TCS.NS'', ''INFY.NS'', ''WIPRO.NS'']"
    by code_simp
  have ne: "status (stocks (body (fst (GET (exampleEnv True) initialSession))) ! 0)
      \<noteq> status (stocks (body (fst (GET (exampleEnv True) initialSession))) ! 1)"
    by code_simp
  from report_sorted [OF surjective_pairing ok] len ne
  have "statusPriority (status (stocks (body (fst (GET (exampleEnv True) initialSession))) ! 0))
     < statusPriority (status (stocks (body (fst (GET (exampleEnv True) initialSession))) ! 1))"
    by (auto simp: Let_def)
  with st sy show ?thesis by simp
qed

text \<open>
  C10. In every report without an error, \<open>alertsSent\<close> is the number of stocks whose
  \<open>alertSent\<close> is true, every such stock has the status \<open>alert\<close>, and \<open>totalScanned\<close>
  is the length of the stock list.
\<close>

theorem report_counts:
  assumes "GET env sess = (resp, sess')" and "error (body resp) = None"
  shows "alertsSent (body resp) = length (filter alertSent (stocks (body resp)))
         \<and> (\<forall>sd \<in> set (stocks (body resp)). alertSent sd \<longrightarrow> status sd = alert)
         \<and> totalScanned (body resp) = length (stocks (body resp))"
proof -
  from GET_success [OF assms] obtain gainers where g: "topGainers env = Inr gainers"
    and c: "(gainers = [] \<and> stocks (body resp) = [] \<and> totalScanned (body resp) = 0
               \<and> alertsSent (body resp) = 0)
            \<or> (\<exists>results sentCount enriched.
                  enrichAll env (niftyChange env) gainers (sess, 0) = (results, sess', sentCount)
                  \<and> promiseAll results = Inr enriched
                  \<and> stocks (body resp) = Array_sort compareStocks enriched
                  \<and> totalScanned (body resp) = length gainers
                  \<and> alertsSent (body resp) = sentCount)"
    by blast
  from c show ?thesis
  proof
    assume "gainers = [] \<and> stocks (body resp) = [] \<and> totalScanned (body resp) = 0
               \<and> alertsSent (body resp) = 0"
    then show ?thesis by simp
  next
    assume "\<exists>results sentCount enriched.
                  enrichAll env (niftyChange env) gainers (sess, 0) = (results, sess', sentCount)
                  \<and> promiseAll results = Inr enriched
                  \<and> stocks (body resp) = Array_sort compareStocks enriched
                  \<and> totalScanned (body resp) = length gainers
                  \<and> alertsSent (body resp) = sentCount"
    then obtain results sentCount enriched where
      ea: "enrichAll env (niftyChange env) gainers (sess, 0) = (results, sess', sentCount)"
      and pa: "promiseAll results = Inr enriched"
      and st: "stocks (body resp) = Array_sort compareStocks enriched"
      and ts: "totalScanned (body resp) = length gainers"
      and as: "alertsSent (body resp) = sentCount"
      by blast
    from enrichAll_counts [OF ea pa] st ts as show ?thesis
      by (simp add: filter_Array_sort set_Array_sort length_Array_sort)
  qed
qed

text \<open>The example scan: three stocks, one alert sent.\<close>

theorem report_counts_witness:
  "alertsSent (body (fst (GET (exampleEnv True) initialSession))) = 1
   \<and> length (filter alertSent (stocks (body (fst (GET (exampleEnv True) initialSession))))) = 1
   \<and> totalScanned (body (fst (GET (exampleEnv True) initialSession))) = 3
   \<and> length (stocks (body (fst (GET (exampleEnv True) initialSession)))) = 3"
proof -
  have ok: "error (body (fst (GET (exampleEnv True) initialSession))) = None"
    by code_simp
  have "alertsSent (body (fst (GET (exampleEnv True) initialSession))) = 1"
    "totalScanned (body (fst (GET (exampleEnv True) initialSession))) = 3"
    by code_simp+
  with report_counts [OF surjective_pairing ok] show ?thesis by simp
qed

subsection \<open>A scan that fails\<close>

lemma enrich_throws:
  "isl (fst (enrich env nifty g st)) =
     (isl (twitterSearch env (tickerFromSymbol (symbol g)))
      \<or> isl (redditSearch env (tickerFromSymbol (symbol g))))"
  by (cases "twitterSearch env (tickerFromSymbol (symbol g))";
      cases "redditSearch env (tickerFromSymbol (symbol g))")
     (simp_all add: enrich_def Let_def split: prod.splits)

lemma enrichAll_throws:
  "list_ex isl (fst (enrichAll env nifty gs st)) =
     list_ex (\<lambda>g. isl (twitterSearch env (tickerFromSymbol (symbol g)))
                  \<or> isl (redditSearch env (tickerFromSymbol (symbol g)))) gs"
proof (induction gs arbitrary: st)
  case Nil
  then show ?case by simp
next
  case (Cons g gs)
  obtain r st1 where e: "enrich env nifty g st = (r, st1)" by (cases "enrich env nifty g st")
  obtain rs st2 where ea: "enrichAll env nifty gs st1 = (rs, st2)"
    by (cases "enrichAll env nifty gs st1")
  have "isl r = (isl (twitterSearch env (tickerFromSymbol (symbol g)))
      \<or> isl (redditSearch env (tickerFromSymbol (symbol g))))"
    using enrich_throws [of env nifty g st] e by simp
  moreover have "list_ex isl rs =
     list_ex (\<lambda>g. isl (twitterSearch env (tickerFromSymbol (symbol g)))
                  \<or> isl (redditSearch env (tickerFromSymbol (symbol g)))) gs"
    using Cons.IH [of st1] ea by simp
  ultimately show ?case using e ea by simp
qed

lemma promiseAll_isl: "isl (promiseAll rs) = list_ex isl rs"
  by (induction rs rule: promiseAll.induct) (auto split: sum.splits)

lemma GET_error:
  "(\<exists>message. fst (GET env sess) = errorResponse (now env) message)
   \<or> (statusCode (fst (GET env sess)) = 200 \<and> error (body (fst (GET env sess))) = None)"
  by (auto simp: GET_def Let_def split: sum.splits prod.splits)

lemma GET_throws:
  "scanThrows env = (\<exists>message. fst (GET env sess) = errorResponse (now env) message)"
proof (cases "topGainers env")
  case (Inl m)
  then show ?thesis by (auto simp: scanThrows_def GET_def)
next
  case (Inr gainers)
  obtain results st1 where
    ea: "enrichAll env (niftyChange env) gainers (sess, 0) = (results, st1)"
    by (cases "enrichAll env (niftyChange env) gainers (sess, 0)")
  have thr: "scanThrows env = isl (promiseAll results)"
    using Inr ea enrichAll_throws [of env "niftyChange env" gainers "(sess, 0)"]
    by (simp add: scanThrows_def promiseAll_isl)
  show ?thesis
  proof (cases "gainers = []")
    case True
    with Inr show ?thesis by (auto simp: scanThrows_def GET_def errorResponse_def)
  next
    case False
    show ?thesis
    proof (cases "promiseAll results")
      case (Inl m)
      with thr Inr False ea show ?thesis
        by (auto simp: GET_def Let_def split: prod.splits)
    next
      case (Inr enriched)
      with thr \<open>topGainers env = Inr gainers\<close> False ea show ?thesis
        by (auto simp: GET_def Let_def errorResponse_def split: prod.splits)
    qed
  qed
qed

text \<open>
  C7. When a step of the scan throws, the handler still answers: with status 500 and a
  report that has no stocks, \<open>totalScanned = 0\<close>, \<open>alertsSent = 0\<close>, a benchmark change of
  0 and the message of the exception as its error; when the fetch of the movers throws,
  the error is that message. When no step throws, the answer has status 200 and no
  error. Nothing is thrown to the caller: \<open>GET\<close> always returns a response.
\<close>

theorem scan_failure_reported:
  "(scanThrows env \<longrightarrow>
      (\<exists>message. fst (GET env sess) =
         \<lparr> statusCode = 500,
           body = \<lparr> stocks = [], scannedAt = now env, totalScanned = 0, alertsSent = 0,
                    niftyChangePercent = 0, error = Some message \<rparr> \<rparr>))
   \<and> (topGainers env = Inl message \<longrightarrow> error (body (fst (GET env sess))) = Some message)
   \<and> (\<not> scanThrows env \<longrightarrow>
        statusCode (fst (GET env sess)) = 200 \<and> error (body (fst (GET env sess))) = None)"
proof (intro conjI impI)
  assume "scanThrows env"
  then show "\<exists>message. fst (GET env sess) =
         \<lparr> statusCode = 500,
           body = \<lparr> stocks = [], scannedAt = now env, totalScanned = 0, alertsSent = 0,
                    niftyChangePercent = 0, error = Some message \<rparr> \<rparr>"
    using GET_throws [of env sess] by (simp add: errorResponse_def)
next
  assume "topGainers env = Inl message"
  then show "error (body (fst (GET env sess))) = Some message"
    by (simp add: GET_def errorResponse_def)
next
  assume "\<not> scanThrows env"
  then show "statusCode (fst (GET env sess)) = 200"
    using GET_throws [of env sess] GET_error [of env sess] by blast
next
  assume "\<not> scanThrows env"
  then show "error (body (fst (GET env sess))) = None"
    using GET_throws [of env sess] GET_error [of env sess] by blast
qed

text \<open>The example scan with the search that throws.\<close>

theorem scan_failure_reported_witness:
  "scanThrows failingEnv
   \<and> fst (GET failingEnv initialSession) =
       \<lparr> statusCode = 500,
         body = \<lparr> stocks = [], scannedAt = ''2026-01-05T10:00:00.000Z'', totalScanned = 0,
                  alertsSent = 0, niftyChangePercent = 0,
                  error = Some ''Cannot read properties of undefined (reading slice)'' \<rparr> \<rparr>"
proof -
  have thr: "scanThrows failingEnv" by code_simp
  have err: "error (body (fst (GET failingEnv initialSession)))
      = Some ''Cannot read properties of undefined (reading slice)''"
    by code_simp
  have nw: "now failingEnv = ''2026-01-05T10:00:00.000Z''" by code_simp
  from scan_failure_reported [of failingEnv initialSession, THEN conjunct1, rule_format, OF thr]
  obtain message where m: "fst (GET failingEnv initialSession) =
         \<lparr> statusCode = 500,
           body = \<lparr> stocks = [], scannedAt = now failingEnv, totalScanned = 0, alertsSent = 0,
                    niftyChangePercent = 0, error = Some message \<rparr> \<rparr>"
    by blast
  with err have "message = ''Cannot read properties of undefined (reading slice)''" by simp
  with m nw thr show ?thesis by simp
qed

subsection \<open>One alert per ticker\<close>





















subsection \<open>Ticker matching\<close>

lemma literal_simps [simp]:
  "literal [] = Empty" "literal (c # cs) = Seq (Lit c) (literal cs)"
  by (simp_all add: literal_def)



















end
